theory Spec2Isabelle
  imports Main "HOL-Library.Sublist" "HOL-Library.Word"
begin

section \<open>Pull specs, image metadata and tag history (pkg/image/api/helper.go)\<close>

text \<open>
  Go strings are byte sequences; they are modelled as \<open>string\<close> (a list of 8-bit
  characters). A Go \<open>error\<close> built by \<open>fmt.Errorf\<close> is modelled by its message, and the
  \<open>nil\<close> error by \<open>None\<close>.
\<close>

subsection \<open>Library functions the source calls\<close>

text \<open>
  \<open>strings.Split(s, sep)\<close> for a one-byte separator: the pieces of \<open>s\<close> between the
  occurrences of the separator. The empty string gives one empty piece.
\<close>

fun strings_Split :: "char \<Rightarrow> string \<Rightarrow> string list" where
  "strings_Split c [] = [[]]"
| "strings_Split c (x # xs) =
     (if x = c then [] # strings_Split c xs
      else (x # hd (strings_Split c xs)) # tl (strings_Split c xs))"

text \<open>\<open>strings.Contains(s, ":")\<close> for a one-byte pattern.\<close>

definition strings_Contains :: "string \<Rightarrow> char \<Rightarrow> bool" where
  "strings_Contains s c = (c \<in> set s)"

text \<open>
  The \<open>%q\<close> verb of \<open>fmt\<close> (\<open>strconv.Quote\<close>) belongs to the Go standard library.
  The functions below take the quoting function as the parameter \<open>q\<close>. For
  evaluation at concrete inputs, \<open>strconv_Quote\<close> renders a string as Go does
  for every ASCII byte: the double quote and the backslash are escaped, the seven
  control characters with a name use it, any other byte outside the printable range is
  written \<open>\x\<close> and two hexadecimal digits. (For a byte above 127 that is what Go
  prints when the byte is not part of a valid UTF-8 sequence; runes beyond ASCII depend
  on Unicode tables and are not modelled.)
\<close>

definition hex_digit :: "nat \<Rightarrow> char" where
  "hex_digit n = (''0123456789abcdef'' ! (n mod 16))"

definition quote_byte :: "char \<Rightarrow> string" where
  "quote_byte c =
     (let n = of_char c :: nat in
      if n = 34 then [char_of (92::nat), c]
      else if n = 92 then [c, c]
      else if 32 \<le> n \<and> n < 127 then [c]
      else if n = 7 then [char_of (92::nat), CHR ''a'']
      else if n = 8 then [char_of (92::nat), CHR ''b'']
      else if n = 12 then [char_of (92::nat), CHR ''f'']
      else if n = 10 then [char_of (92::nat), CHR ''n'']
      else if n = 13 then [char_of (92::nat), CHR ''r'']
      else if n = 9 then [char_of (92::nat), CHR ''t'']
      else if n = 11 then [char_of (92::nat), CHR ''v'']
      else [char_of (92::nat), CHR ''x'', hex_digit (n div 16), hex_digit n])"

definition strconv_Quote :: "string \<Rightarrow> string" where
  "strconv_Quote s = char_of (34::nat) # concat (map quote_byte s) @ [char_of (34::nat)]"

text \<open>
  Modelled from the spec: \<open>docker.ParseRepositoryTag\<close> of the go-dockerclient package,
  which is not part of the sources. The spec (4.1, step 1): if the string contains an
  \<open>@\<close> it denotes a digest ref; otherwise a trailing \<open>:token\<close> after the last
  \<open>/\<close>-delimited segment denotes a tag ref; if no ref is present, the ref is empty.
  With an \<open>@\<close>, the repository is what precedes the first \<open>@\<close> and the ref what
  follows it. Otherwise the string is cut at its last colon, unless a slash follows
  that colon (then the colon belongs to a host:port and there is no ref).
\<close>

definition ParseRepositoryTag :: "string \<Rightarrow> string \<times> string" where
  "ParseRepositoryTag repos =
     (if CHR ''@'' \<in> set repos
      then (takeWhile (\<lambda>c. c \<noteq> CHR ''@'') repos, tl (dropWhile (\<lambda>c. c \<noteq> CHR ''@'') repos))
      else if CHR '':'' \<notin> set repos then (repos, [])
      else let tag = rev (takeWhile (\<lambda>c. c \<noteq> CHR '':'') (rev repos)) in
        if CHR ''/'' \<in> set tag then (repos, [])
        else (rev (tl (dropWhile (\<lambda>c. c \<noteq> CHR '':'') (rev repos))), tag))"

subsection \<open>Splitting and joining pull specs\<close>

text \<open>\<open>DockerDefaultNamespace\<close>: the namespace of a single segment name.\<close>

definition DockerDefaultNamespace :: string where
  "DockerDefaultNamespace = ''library''"

text \<open>
  The result of the two split functions: the named results
  \<open>(registry, namespace, name, ref, err)\<close> of the Go signature. A bare \<open>return\<close>
  returns the named results as they stand: on the error branches \<open>registry\<close>,
  \<open>namespace\<close> and \<open>name\<close> are still empty, \<open>ref\<close> holds what
  \<open>ParseRepositoryTag\<close> returned.
\<close>

type_synonym split_result = "string \<times> string \<times> string \<times> string \<times> string option"

definition segments_error :: "(string \<Rightarrow> string) \<Rightarrow> string \<Rightarrow> string" where
  "segments_error q spec =
     ''the docker pull spec '' @ q spec @ '' must be two or three segments separated by slashes''"

text \<open>
  \<open>SplitOpenShiftPullSpec\<close>. The parameter \<open>prt\<close> stands for
  \<open>docker.ParseRepositoryTag\<close>, \<open>q\<close> for the \<open>%q\<close> verb. The source assigns the
  first result of \<open>ParseRepositoryTag\<close> to its own parameter \<open>spec\<close>; below that
  value is \<open>spec'\<close>, and it is the one the error message prints.
\<close>

definition SplitOpenShiftPullSpec ::
  "(string \<Rightarrow> string \<times> string) \<Rightarrow> (string \<Rightarrow> string) \<Rightarrow> string \<Rightarrow> split_result" where
  "SplitOpenShiftPullSpec prt q spec =
     (let (spec', ref) = prt spec;
          arr = strings_Split CHR ''/'' spec'
      in if length arr = 2 then ([], arr ! 0, arr ! 1, ref, None)
         else if length arr = 3 then (arr ! 0, arr ! 1, arr ! 2, ref, None)
         else if length arr = 1 then
           (if length (arr ! 0) = 0 then ([], [], [], ref, Some (segments_error q spec'))
            else ([], [], arr ! 0, ref, None))
         else ([], [], [], ref, Some (segments_error q spec')))"

text \<open>\<open>SplitDockerPullSpec\<close>: both branches of its \<open>if\<close> return the named results.\<close>

definition SplitDockerPullSpec ::
  "(string \<Rightarrow> string \<times> string) \<Rightarrow> (string \<Rightarrow> string) \<Rightarrow> string \<Rightarrow> split_result" where
  "SplitDockerPullSpec prt q spec =
     (let (registry, namespace, name, ref, err) = SplitOpenShiftPullSpec prt q spec
      in if err \<noteq> None then (registry, namespace, name, ref, err)
         else (registry, namespace, name, ref, err))"

definition IsPullSpec ::
  "(string \<Rightarrow> string \<times> string) \<Rightarrow> (string \<Rightarrow> string) \<Rightarrow> string \<Rightarrow> bool" where
  "IsPullSpec prt q spec =
     (let (_, _, _, _, err) = SplitDockerPullSpec prt q spec in err = None)"

definition JoinDockerPullSpec :: "string \<Rightarrow> string \<Rightarrow> string \<Rightarrow> string \<Rightarrow> string" where
  "JoinDockerPullSpec registry namespace name ref =
     (let ref' = (if length ref \<noteq> 0
                  then (if strings_Contains ref CHR '':'' then ''@'' @ ref else '':'' @ ref)
                  else ref)
      in if length namespace = 0 then
           (if length registry = 0 then name @ ref'
            else registry @ ''/'' @ DockerDefaultNamespace @ ''/'' @ name @ ref')
         else if length registry = 0 then namespace @ ''/'' @ name @ ref'
         else registry @ ''/'' @ namespace @ ''/'' @ name @ ref')"

text \<open>The two split functions with the modelled library functions plugged in.\<close>

definition Parse :: "string \<Rightarrow> split_result" where
  "Parse spec = SplitOpenShiftPullSpec ParseRepositoryTag strconv_Quote spec"

text \<open>
  \<open>join_segments c\<close> puts the separator between the segments (what
  \<open>strings.Join\<close> does); it is used to state the shape of an input, the source does
  not call it.
\<close>

fun join_segments :: "char \<Rightarrow> string list \<Rightarrow> string" where
  "join_segments c [] = []"
| "join_segments c [x] = x"
| "join_segments c (x # y # ys) = x @ c # join_segments c (y # ys)"

text \<open>Parsing a string and joining the components again, when parsing succeeds.\<close>

definition JoinOfParse :: "string \<Rightarrow> string option" where
  "JoinOfParse spec =
     (let (registry, namespace, name, ref, err) = Parse spec
      in if err = None then Some (JoinDockerPullSpec registry namespace name ref) else None)"

subsection \<open>Image metadata\<close>

text \<open>
  Modelled from the spec: the struct types \<open>DockerV1CompatibilityImage\<close>,
  \<open>docker.Image\<close> (the type of \<open>Image.DockerImageMetadata\<close>), \<open>DockerHistory\<close>,
  \<open>DockerImageManifest\<close> and \<open>Image\<close> are declared outside the sources. Their fields
  are the ones the spec lists (3, 6) and the function reads and writes. \<open>'time\<close> stands
  for \<open>time.Time\<close> and \<open>'config\<close> for \<open>docker.Config\<close>; a pointer to a config is an
  option. The records are extensible: the fields of \<open>Image\<close> the function does not
  touch are in the extension.
\<close>

record ('time, 'config) DockerV1CompatibilityImage =
  ID :: string
  Parent :: string
  Comment :: string
  Created :: 'time
  Container :: string
  ContainerConfig :: 'config
  DockerVersion :: string
  Author :: string
  Config :: "'config option"
  Architecture :: string
  Size :: "64 word"

record ('time, 'config) DockerImage =
  ID :: string
  Parent :: string
  Comment :: string
  Created :: 'time
  Container :: string
  ContainerConfig :: 'config
  DockerVersion :: string
  Author :: string
  Config :: "'config option"
  Architecture :: string
  Size :: "64 word"

record DockerHistory =
  DockerV1Compatibility :: string

record DockerImageManifest =
  History :: "DockerHistory list"

record ('time, 'config) Image =
  DockerImageManifest :: string
  DockerImageMetadata :: "('time, 'config) DockerImage"

text \<open>
  \<open>ImageWithMetadata\<close>. The two calls of \<open>json.Unmarshal\<close> (Go standard library) are
  the parameters \<open>unmarshal_manifest\<close> and \<open>unmarshal_v1\<close>: each decodes into a zero
  value and returns the decoded value or an error. The argument is passed by value, so
  the assignments change a copy, which is returned. The manifest field of the copy is
  set to the empty string before the manifest is decoded.
\<close>

definition ImageWithMetadata ::
  "(string \<Rightarrow> 'e + DockerImageManifest) \<Rightarrow>
   (string \<Rightarrow> 'e + ('time, 'config) DockerV1CompatibilityImage) \<Rightarrow>
   ('time, 'config, 'z) Image_scheme \<Rightarrow> 'e + ('time, 'config, 'z) Image_scheme" where
  "ImageWithMetadata unmarshal_manifest unmarshal_v1 img =
     (if length (DockerImageManifest img) = 0 then Inr img
      else
        let manifestData = DockerImageManifest img;
            img = img\<lparr>DockerImageManifest := []\<rparr>
        in case unmarshal_manifest manifestData of
             Inl err \<Rightarrow> Inl err
           | Inr manifest \<Rightarrow>
               if length (History manifest) = 0 then Inr img
               else
                 (case unmarshal_v1 (DockerV1Compatibility (History manifest ! 0)) of
                    Inl err \<Rightarrow> Inl err
                  | Inr v1Metadata \<Rightarrow>
                      Inr (img\<lparr>DockerImageMetadata := (DockerImageMetadata img)
                        \<lparr>DockerImage.ID := DockerV1CompatibilityImage.ID v1Metadata,
                         DockerImage.Parent := DockerV1CompatibilityImage.Parent v1Metadata,
                         DockerImage.Comment := DockerV1CompatibilityImage.Comment v1Metadata,
                         DockerImage.Created := DockerV1CompatibilityImage.Created v1Metadata,
                         DockerImage.Container := DockerV1CompatibilityImage.Container v1Metadata,
                         DockerImage.ContainerConfig :=
                           DockerV1CompatibilityImage.ContainerConfig v1Metadata,
                         DockerImage.DockerVersion :=
                           DockerV1CompatibilityImage.DockerVersion v1Metadata,
                         DockerImage.Author := DockerV1CompatibilityImage.Author v1Metadata,
                         DockerImage.Config := DockerV1CompatibilityImage.Config v1Metadata,
                         DockerImage.Architecture :=
                           DockerV1CompatibilityImage.Architecture v1Metadata,
                         DockerImage.Size := DockerV1CompatibilityImage.Size v1Metadata\<rparr>\<rparr>)))"

text \<open>
  A decoder given by a finite table, for evaluating \<open>ImageWithMetadata\<close> at concrete
  inputs: a listed input decodes to its value, any other input is a decode error.
\<close>

definition table_decoder :: "(string \<times> 'a) list \<Rightarrow> string \<Rightarrow> string + 'a" where
  "table_decoder tbl s =
     (case map_of tbl s of None \<Rightarrow> Inl ''invalid character'' | Some v \<Rightarrow> Inr v)"

subsection \<open>Tag history\<close>

text \<open>
  Modelled from the spec: \<open>ImageRepository\<close>, its status and \<open>TagEventList\<close> are
  declared outside the sources. The spec (3): \<open>Tags\<close> maps a tag name to a declared
  tag reference (a string), \<open>Status.Tags\<close> maps a tag name to a \<open>TagEventList\<close>,
  whose \<open>Items\<close> are the events, most recent first. A \<open>TagEvent\<close> is opaque (\<open>'ev\<close>).
\<close>

record 'ev TagEventList =
  Items :: "'ev list"

record 'ev ImageRepositoryStatus =
  Tags :: "string \<rightharpoonup> 'ev TagEventList"

record 'ev ImageRepository =
  Namespace :: string
  Name :: string
  Tags :: "string \<rightharpoonup> string"
  Status :: "'ev ImageRepositoryStatus"

text \<open>
  \<open>LatestTaggedImage\<close>. The three error messages, with \<open>%s\<close> printing a string as it
  is and \<open>%q\<close> printing it through \<open>q\<close>. The returned pointer to \<open>Items[0]\<close> is
  modelled by the event at index 0.
\<close>

definition tag_error :: "(string \<Rightarrow> string) \<Rightarrow> 'ev ImageRepository \<Rightarrow> string \<Rightarrow> string \<Rightarrow> string" where
  "tag_error q repo tag what =
     ''image repository '' @ Namespace repo @ ''/'' @ Name repo @ '': tag '' @ q tag @ what"

definition LatestTaggedImage ::
  "(string \<Rightarrow> string) \<Rightarrow> 'ev ImageRepository \<Rightarrow> string \<Rightarrow> string + 'ev" where
  "LatestTaggedImage q repo tag =
     (case ImageRepository.Tags repo tag of
        None \<Rightarrow> Inl (tag_error q repo tag '' not found'')
      | Some _ \<Rightarrow>
          (case ImageRepositoryStatus.Tags (Status repo) tag of
             None \<Rightarrow> Inl (tag_error q repo tag '' not found in tag history'')
           | Some tagHistory \<Rightarrow>
               if length (Items tagHistory) = 0
               then Inl (tag_error q repo tag '' has 0 history items'')
               else Inr (Items tagHistory ! 0)))"

subsection \<open>Facts about \<open>strings_Split\<close>\<close>

lemma strings_Split_nonempty: "strings_Split c s \<noteq> []"
  by (cases s) simp_all

lemma length_strings_Split: "length (strings_Split c s) = Suc (count_list s c)"
proof (induction s)
  case Nil
  show ?case by simp
next
  case (Cons x xs)
  have "length (tl (strings_Split c xs)) = count_list xs c"
    using Cons.IH by simp
  with Cons.IH show ?case by simp
qed

lemma strings_Split_no_sep: "x \<in> set (strings_Split c s) \<Longrightarrow> c \<notin> set x"
proof (induction s arbitrary: x)
  case Nil
  then show ?case by simp
next
  case (Cons a s)
  obtain h t where r: "strings_Split c s = h # t"
    using strings_Split_nonempty [of c s] by (cases "strings_Split c s") auto
  show ?case
  proof (cases "a = c")
    case True
    with Cons.prems have "x = [] \<or> x \<in> set (strings_Split c s)" by simp
    then show ?thesis using Cons.IH by auto
  next
    case False
    with Cons.prems r have "x = a # h \<or> x \<in> set t" by simp
    moreover have "c \<notin> set h" using Cons.IH [of h] r by simp
    moreover have "x \<in> set t \<Longrightarrow> c \<notin> set x" using Cons.IH [of x] r by simp
    ultimately show ?thesis using False by auto
  qed
qed

lemma join_segments_Cons: "join_segments c ((x # h) # t) = x # join_segments c (h # t)"
  by (cases t) simp_all

lemma join_segments_Split: "join_segments c (strings_Split c s) = s"
proof (induction s)
  case Nil
  show ?case by simp
next
  case (Cons a s)
  obtain h t where r: "strings_Split c s = h # t"
    using strings_Split_nonempty [of c s] by (cases "strings_Split c s") auto
  show ?case using Cons.IH r by (simp add: join_segments_Cons)
qed

lemma strings_Split_single: "c \<notin> set a \<Longrightarrow> strings_Split c a = [a]"
  by (induction a) auto

lemma strings_Split_append:
  "c \<notin> set a \<Longrightarrow> strings_Split c (a @ c # s) = a # strings_Split c s"
  by (induction a) auto

lemma strings_Split_join:
  "segs \<noteq> [] \<Longrightarrow> (\<And>x. x \<in> set segs \<Longrightarrow> c \<notin> set x) \<Longrightarrow>
   strings_Split c (join_segments c segs) = segs"
proof (induction c segs rule: join_segments.induct)
  case (1 c)
  then show ?case by simp
next
  case (2 c x)
  then show ?case by (simp add: strings_Split_single)
next
  case (3 c x y ys)
  then show ?case by (simp add: strings_Split_append)
qed

lemma list_of_length_3: "length xs = 3 \<Longrightarrow> xs = [xs ! 0, xs ! 1, xs ! 2]"
  by (cases xs; cases "tl xs"; cases "tl (tl xs)") auto

subsection \<open>The split functions\<close>

lemma SplitOpenShiftPullSpec_cases:
  assumes "prt spec = (rest, ref)"
  shows "SplitOpenShiftPullSpec prt q spec =
     (let arr = strings_Split CHR ''/'' rest
      in if length arr = 2 then ([], arr ! 0, arr ! 1, ref, None)
         else if length arr = 3 then (arr ! 0, arr ! 1, arr ! 2, ref, None)
         else if length arr = 1 \<and> arr ! 0 \<noteq> [] then ([], [], arr ! 0, ref, None)
         else ([], [], [], ref, Some (segments_error q rest)))"
  using assms by (simp add: SplitOpenShiftPullSpec_def Let_def)

text \<open>
  C10. For every input string, \<open>SplitDockerPullSpec\<close> returns the same
  \<open>(registry, namespace, name, ref, err)\<close> tuple as \<open>SplitOpenShiftPullSpec\<close>, and
  \<open>IsPullSpec\<close> is true exactly when either of them returns a nil error. This holds
  whatever \<open>ParseRepositoryTag\<close> and the \<open>%q\<close> verb compute.
\<close>

theorem SplitDockerPullSpec_delegates:
  "SplitDockerPullSpec prt q spec = SplitOpenShiftPullSpec prt q spec \<and>
   IsPullSpec prt q spec = (snd (snd (snd (snd (SplitOpenShiftPullSpec prt q spec)))) = None) \<and>
   IsPullSpec prt q spec = (snd (snd (snd (snd (SplitDockerPullSpec prt q spec)))) = None)"
  by (simp add: IsPullSpec_def SplitDockerPullSpec_def split: prod.splits)

theorem SplitDockerPullSpec_delegates_witness:
  "SplitDockerPullSpec ParseRepositoryTag strconv_Quote ''ns/name:v1'' = ([], ''ns'', ''name'', ''v1'', None) \<and>
   SplitOpenShiftPullSpec ParseRepositoryTag strconv_Quote ''ns/name:v1'' = ([], ''ns'', ''name'', ''v1'', None) \<and>
   IsPullSpec ParseRepositoryTag strconv_Quote ''ns/name:v1'' \<and>
   \<not> IsPullSpec ParseRepositoryTag strconv_Quote ''a/b/c/d''"
proof -
  have a: "SplitOpenShiftPullSpec ParseRepositoryTag strconv_Quote ''ns/name:v1'' =
      ([], ''ns'', ''name'', ''v1'', None)"
    by (simp add: SplitOpenShiftPullSpec_def ParseRepositoryTag_def)
  have b: "snd (snd (snd (snd (SplitOpenShiftPullSpec ParseRepositoryTag strconv_Quote ''a/b/c/d'')))) \<noteq> None"
    by (simp add: SplitOpenShiftPullSpec_def ParseRepositoryTag_def)
  show ?thesis
    using a b SplitDockerPullSpec_delegates [of ParseRepositoryTag strconv_Quote "''ns/name:v1''"]
      SplitDockerPullSpec_delegates [of ParseRepositoryTag strconv_Quote "''a/b/c/d''"]
    by simp
qed

end
